theory Spec2Isabelle
  imports Main
begin

section \<open>JavaScript values\<close>

text \<open>
  Response bodies and the fields of a rejection are dynamically typed. A value is one of
  the JSON shapes plus \<open>undefined\<close>; numbers are restricted to integers (status codes
  are integers, and of a body number only its truthiness is ever inspected).
\<close>

datatype jsval =
    JUndefined
  | JNull
  | JBool bool
  | JNum int
  | JStr string
  | JArr "jsval list"
  | JObj "(string \<times> jsval) list"

text \<open>JavaScript truthiness, as used by \<open>if (x)\<close> and \<open>x || y\<close>.\<close>

fun truthy :: "jsval \<Rightarrow> bool" where
  "truthy JUndefined = False"
| "truthy JNull = False"
| "truthy (JBool b) = b"
| "truthy (JNum n) = (n \<noteq> 0)"
| "truthy (JStr s) = (s \<noteq> [])"
| "truthy (JArr xs) = True"
| "truthy (JObj kvs) = True"

text \<open>\<open>a || b\<close>\<close>

definition js_or :: "jsval \<Rightarrow> jsval \<Rightarrow> jsval" where
  "js_or a b = (if truthy a then a else b)"

text \<open>
  \<open>data?.message\<close>: \<open>undefined\<close> when \<open>data\<close> is \<open>null\<close> or \<open>undefined\<close>, the own
  property of an object when it has one, and \<open>undefined\<close> for every other value
  (strings, numbers, booleans and arrays have no property of that name).
\<close>

fun message_of :: "jsval \<Rightarrow> jsval" where
  "message_of (JObj kvs) = (case map_of kvs ''message'' of Some v \<Rightarrow> v | None \<Rightarrow> JUndefined)"
| "message_of v = JUndefined"

text \<open>A JavaScript value that is either a string or missing (\<open>null\<close>/\<open>undefined\<close>).\<close>

definition js_of_string :: "string option \<Rightarrow> jsval" where
  "js_of_string s = (case s of None \<Rightarrow> JUndefined | Some t \<Rightarrow> JStr t)"

section \<open>Persisted session store (hooks/storage)\<close>

text \<open>\<open>localStorage\<close>: \<open>getItem\<close> yields \<open>null\<close> (here \<open>None\<close>) for a missing key.\<close>

type_synonym storage = "string \<rightharpoonup> string"

definition getItem :: "string \<Rightarrow> storage \<Rightarrow> string option" where
  "getItem k ls = ls k"

definition setItem :: "string \<Rightarrow> string \<Rightarrow> storage \<Rightarrow> storage" where
  "setItem k v ls = ls(k \<mapsto> v)"

definition removeItem :: "string \<Rightarrow> storage \<Rightarrow> storage" where
  "removeItem k ls = ls(k := None)"

definition getToken :: "storage \<Rightarrow> string option" where
  "getToken ls = getItem ''mediconnect_token'' ls"

definition setToken :: "string \<Rightarrow> storage \<Rightarrow> storage" where
  "setToken token ls = setItem ''mediconnect_token'' token ls"

definition removeToken :: "storage \<Rightarrow> storage" where
  "removeToken ls = removeItem ''mediconnect_token'' ls"

definition getUserRole :: "storage \<Rightarrow> string option" where
  "getUserRole ls = getItem ''mediconnect_role'' ls"

definition setUserRole :: "string \<Rightarrow> storage \<Rightarrow> storage" where
  "setUserRole role ls = setItem ''mediconnect_role'' role ls"

definition removeUserRole :: "storage \<Rightarrow> storage" where
  "removeUserRole ls = removeItem ''mediconnect_role'' ls"

text \<open>The raw stored string of the user data (before \<open>JSON.parse\<close>).\<close>

definition getUserDataRaw :: "storage \<Rightarrow> string option" where
  "getUserDataRaw ls = getItem ''mediconnect_user'' ls"

definition removeUserData :: "storage \<Rightarrow> storage" where
  "removeUserData ls = removeItem ''mediconnect_user'' ls"

definition clearStorage :: "storage \<Rightarrow> storage" where
  "clearStorage ls = removeUserData (removeUserRole (removeToken ls))"

section \<open>Requests, responses and errors\<close>

text \<open>
  The request config; \<open>isRetry\<close> is the \<open>__isRetry\<close> property the response interceptor
  stamps on it (absent, hence false, on a fresh config).
\<close>

record config =
  url :: string
  http_method :: string
  headers :: "string \<rightharpoonup> string"
  body :: jsval
  isRetry :: bool

record response =
  status :: int
  data :: jsval
  rconfig :: config

text \<open>
  What the HTTP library rejects with: \<open>response\<close> is present when the server answered
  with a failure status and absent for a connection-level failure; \<open>message\<close> and \<open>code\<close>
  are strings when the library sets them.
\<close>

record axios_error =
  response :: "response option"
  config :: "config option"
  message :: "string option"
  code :: "string option"

text \<open>
  The object a failed call rejects with. A field the object literal does not mention
  is \<open>None\<close>; a field that is present holds a JavaScript value (possibly \<open>null\<close>).
\<close>

record normalized_error =
  ne_status :: jsval
  ne_message :: jsval
  ne_data :: "jsval option"
  ne_code :: "jsval option"
  ne_originalError :: "axios_error option"

section \<open>The browser as seen by the wrapper\<close>

text \<open>
  Observable effects are appended to one trace, in the order they happen: a request
  handed to the transport, a timer awaited, an assignment to \<open>window.location.href\<close>,
  and console output.
\<close>

datatype event =
    Dispatched config
  | TimerSet nat
  | Navigate string
  | ConsoleWarn string jsval
  | ConsoleError string jsval
  | ConsoleErrorObj string axios_error

record world =
  localStorage :: storage
  pathname :: string
  events :: "event list"

definition emit :: "event \<Rightarrow> world \<Rightarrow> world" where
  "emit e w = w\<lparr>events := events w @ [e]\<rparr>"

fun attempts_of :: "event list \<Rightarrow> config list" where
  "attempts_of [] = []"
| "attempts_of (Dispatched c # es) = c # attempts_of es"
| "attempts_of (e # es) = attempts_of es"

fun navigations_of :: "event list \<Rightarrow> string list" where
  "navigations_of [] = []"
| "navigations_of (Navigate p # es) = p # navigations_of es"
| "navigations_of (e # es) = navigations_of es"

fun timers_of :: "event list \<Rightarrow> nat list" where
  "timers_of [] = []"
| "timers_of (TimerSet d # es) = d # timers_of es"
| "timers_of (e # es) = timers_of es"

section \<open>The request interceptor\<close>

text \<open>\<open>s || d\<close> for a string-or-null \<open>s\<close> and a string \<open>d\<close>.\<close>

definition str_or :: "string option \<Rightarrow> string \<Rightarrow> string" where
  "str_or s d = (case s of None \<Rightarrow> d | Some t \<Rightarrow> if t \<noteq> [] then t else d)"

text \<open>
  The fulfilled handler of \<open>api.interceptors.request.use\<close>: it reads the token and the
  language from \<open>localStorage\<close> and writes two headers on the config.
\<close>

definition request_onFulfilled :: "storage \<Rightarrow> config \<Rightarrow> config" where
  "request_onFulfilled ls cfg =
     (let token = getToken ls;
          cfg1 = (case token of
                    None \<Rightarrow> cfg
                  | Some t \<Rightarrow>
                      if t \<noteq> []
                      then cfg\<lparr>headers := (headers cfg)(''Authorization'' \<mapsto> ''Bearer '' @ t)\<rparr>
                      else cfg);
          language = str_or (getItem ''mediconnect_language'' ls) ''en''
      in cfg1\<lparr>headers := (headers cfg1)(''Accept-Language'' \<mapsto> language)\<rparr>)"

text \<open>
  The rejected handler of the request interceptor passes its reason on unchanged. It is
  the first link of the chain, which starts from the config itself, so no call reaches it.
\<close>

definition request_onRejected :: "axios_error \<Rightarrow> axios_error" where
  "request_onRejected err = err"

section \<open>The response interceptor\<close>

definition response_onFulfilled :: "response \<Rightarrow> response" where
  "response_onFulfilled resp = resp"

text \<open>
  The promise the rejected handler returns: either the retry (the config to hand to
  \<open>api\<close> again once the timer has fired) or a rejection with a normalized error.
\<close>

datatype handler_result = Retry config | Reject normalized_error

text \<open>The guard \<open>!response && config && !config.__isRetry\<close>, yielding the config.\<close>

definition retry_config :: "axios_error \<Rightarrow> config option" where
  "retry_config err =
     (case response err of
        Some r \<Rightarrow> None
      | None \<Rightarrow> (case config err of
                   None \<Rightarrow> None
                 | Some cfg \<Rightarrow> if isRetry cfg then None else Some cfg))"

text \<open>The \<open>switch (response.status)\<close> with its side effects.\<close>

definition status_switch :: "world \<Rightarrow> response \<Rightarrow> world" where
  "status_switch w resp =
     (if status resp = 401 then
        (let w1 = w\<lparr>localStorage := clearStorage (localStorage w)\<rparr>
         in if pathname w1 \<noteq> ''/login'' then emit (Navigate ''/login'') w1 else w1)
      else if status resp = 403 then
        emit (ConsoleError ''Access forbidden:'' (message_of (data resp))) w
      else if status resp = 404 then
        emit (ConsoleError ''Resource not found:'' (JStr (url (rconfig resp)))) w
      else if status resp = 500 then
        emit (ConsoleError ''Server error:'' (message_of (data resp))) w
      else
        emit (ConsoleError ''API Error:'' (message_of (data resp))) w)"

definition response_onRejected :: "world \<Rightarrow> axios_error \<Rightarrow> handler_result \<times> world" where
  "response_onRejected w err =
     (case retry_config err of
        Some cfg \<Rightarrow>
          (Retry (cfg\<lparr>isRetry := True\<rparr>),
           emit (TimerSet 1000)
             (emit (ConsoleWarn ''Network error detected, retrying request once...''
                      (JStr (url cfg))) w))
      | None \<Rightarrow>
          (case response err of
             Some resp \<Rightarrow>
               (Reject \<lparr>ne_status = JNum (status resp),
                        ne_message = js_or (message_of (data resp)) (JStr ''An error occurred''),
                        ne_data = Some (data resp),
                        ne_code = None,
                        ne_originalError = None\<rparr>,
                status_switch w resp)
           | None \<Rightarrow>
               (Reject \<lparr>ne_status = JNum 0,
                        ne_message = js_or (js_of_string (message err))
                                       (JStr ''Network error. Please check your connection.''),
                        ne_data = None,
                        ne_code = Some (js_or (js_of_string (code err)) JNull),
                        ne_originalError = Some err\<rparr>,
                emit (ConsoleErrorObj ''Network Error (no response):'' err) w)))"

section \<open>A call through the wrapper\<close>

text \<open>
  The transport is the environment: asked for the \<open>n\<close>-th attempt with the config that
  left the request interceptor, it either fulfils with a response or rejects with an
  optional response, message and code. The HTTP library attaches the dispatched
  config to every error it raises, and a config handed to \<open>api\<close> again keeps the
  \<open>__isRetry\<close> property stamped on it. One call is followed on its own: no other call
  writes to the store between its attempts.
\<close>

datatype outcome =
    Fulfilled response
  | Rejected "response option" "string option" "string option"

type_synonym transport = "nat \<Rightarrow> config \<Rightarrow> outcome"

definition error_of :: "config \<Rightarrow> response option \<Rightarrow> string option \<Rightarrow> string option \<Rightarrow> axios_error" where
  "error_of cfg r m c = \<lparr>response = r, config = Some cfg, message = m, code = c\<rparr>"

text \<open>
  \<open>api(config)\<close>: request interceptor, transport, response interceptor. The retry
  branch calls \<open>api\<close> again; the flag on the config bounds the recursion.
\<close>

function api :: "transport \<Rightarrow> world \<Rightarrow> config \<Rightarrow> (normalized_error + response) \<times> world" where
  "api T w cfg =
     (let cfg1 = request_onFulfilled (localStorage w) cfg;
          n = length (attempts_of (events w));
          w1 = emit (Dispatched cfg1) w
      in case T n cfg1 of
           Fulfilled resp \<Rightarrow> (Inr (response_onFulfilled resp), w1)
         | Rejected r m c \<Rightarrow>
             (case response_onRejected w1 (error_of cfg1 r m c) of
                (Reject e, w2) \<Rightarrow> (Inl e, w2)
              | (Retry cfg2, w2) \<Rightarrow> api T w2 cfg2))"
  by pat_completeness auto
termination
  by (relation "measure (\<lambda>(T, w, cfg). if isRetry cfg then 0 else (1::nat))")
     (auto simp: response_onRejected_def retry_config_def error_of_def
                 request_onFulfilled_def Let_def
           split: option.splits if_splits)

section \<open>Derived notions used in the statements\<close>

text \<open>The rejection built from an error that is not retried.\<close>

definition rejection_of :: "axios_error \<Rightarrow> normalized_error" where
  "rejection_of err =
     (case response err of
        Some resp \<Rightarrow>
          \<lparr>ne_status = JNum (status resp),
           ne_message = js_or (message_of (data resp)) (JStr ''An error occurred''),
           ne_data = Some (data resp),
           ne_code = None,
           ne_originalError = None\<rparr>
      | None \<Rightarrow>
          \<lparr>ne_status = JNum 0,
           ne_message = js_or (js_of_string (message err))
                          (JStr ''Network error. Please check your connection.''),
           ne_data = None,
           ne_code = Some (js_or (js_of_string (code err)) JNull),
           ne_originalError = Some err\<rparr>)"

text \<open>
  The world in which the retry is issued: the first attempt has been dispatched, the
  warning logged and the one-second timer awaited.
\<close>

definition retry_world :: "world \<Rightarrow> config \<Rightarrow> world" where
  "retry_world w cfg1 =
     emit (TimerSet 1000)
       (emit (ConsoleWarn ''Network error detected, retrying request once...''
                (JStr (url cfg1)))
          (emit (Dispatched cfg1) w))"

text \<open>\<open>typeof v === 'number'\<close> and \<open>typeof v === 'string'\<close>.\<close>

fun is_number :: "jsval \<Rightarrow> bool" where
  "is_number (JNum n) = True"
| "is_number v = False"

fun is_string :: "jsval \<Rightarrow> bool" where
  "is_string (JStr s) = True"
| "is_string v = False"

text \<open>The shape of a rejection: a numeric \<open>status\<close> and a string \<open>message\<close>.\<close>

definition normalized_shape :: "normalized_error \<Rightarrow> bool" where
  "normalized_shape e = (is_number (ne_status e) \<and> is_string (ne_message e))"

definition rejects_normalized :: "normalized_error + response \<Rightarrow> bool" where
  "rejects_normalized res = (case res of Inl e \<Rightarrow> normalized_shape e | Inr resp \<Rightarrow> True)"

text \<open>The value of the \<open>code\<close> field of a connection-level rejection.\<close>

definition code_field :: "string option \<Rightarrow> jsval" where
  "code_field c = (case c of None \<Rightarrow> JNull | Some s \<Rightarrow> if s = [] then JNull else JStr s)"

text \<open>How one attempt that is not retried settles the call.\<close>

definition settle :: "config \<Rightarrow> outcome \<Rightarrow> normalized_error + response" where
  "settle cfg1 out =
     (case out of
        Fulfilled resp \<Rightarrow> Inr resp
      | Rejected r m c \<Rightarrow> Inl (rejection_of (error_of cfg1 r m c)))"

text \<open>The requests a call hands to the transport, in order.\<close>

definition dispatched_by :: "transport \<Rightarrow> world \<Rightarrow> config \<Rightarrow> config list" where
  "dispatched_by T w cfg =
     drop (length (attempts_of (events w))) (attempts_of (events (snd (api T w cfg))))"

text \<open>The transport's answer to the last request a call dispatched.\<close>

definition last_answer :: "transport \<Rightarrow> world \<Rightarrow> config \<Rightarrow> outcome" where
  "last_answer T w cfg =
     T (length (attempts_of (events w)) + length (dispatched_by T w cfg) - 1)
       (last (dispatched_by T w cfg))"

section \<open>Concrete scenarios\<close>

definition get_config :: "string \<Rightarrow> config" where
  "get_config path =
     \<lparr>url = path, http_method = ''get'', headers = Map.empty, body = JUndefined,
      isRetry = False\<rparr>"

definition post_config :: "string \<Rightarrow> jsval \<Rightarrow> config" where
  "post_config path payload =
     \<lparr>url = path, http_method = ''post'', headers = Map.empty, body = payload,
      isRetry = False\<rparr>"

definition session_store :: "string \<Rightarrow> storage" where
  "session_store token =
     [''mediconnect_token'' \<mapsto> token,
      ''mediconnect_role'' \<mapsto> ''patient'',
      ''mediconnect_user'' \<mapsto> ''{}'']"

definition browser :: "string \<Rightarrow> storage \<Rightarrow> world" where
  "browser path ls = \<lparr>localStorage = ls, pathname = path, events = []\<rparr>"

text \<open>A transport on which every attempt times out.\<close>

fun always_timeout :: transport where
  "always_timeout n cfg =
     Rejected None (Some ''timeout of 10000ms exceeded'') (Some ''ECONNABORTED'')"

text \<open>A transport whose first attempt times out and whose later attempts answer 200.\<close>

fun timeout_once :: "jsval \<Rightarrow> transport" where
  "timeout_once d n cfg =
     (if n = 0
      then Rejected None (Some ''timeout of 10000ms exceeded'') (Some ''ECONNABORTED'')
      else Fulfilled \<lparr>status = 200, data = d, rconfig = cfg\<rparr>)"

text \<open>
  A transport on which the server always answers with the given status and body; as the
  HTTP library does, a status outside 200..299 rejects.
\<close>

fun answer_with :: "int \<Rightarrow> jsval \<Rightarrow> transport" where
  "answer_with st d n cfg =
     (if 200 \<le> st \<and> st < 300
      then Fulfilled \<lparr>status = st, data = d, rconfig = cfg\<rparr>
      else Rejected (Some \<lparr>status = st, data = d, rconfig = cfg\<rparr>)
             (Some ''Request failed'') (Some ''ERR_BAD_RESPONSE''))"

text \<open>An error body whose \<open>message\<close> is a list of validation messages.\<close>

definition validation_body :: jsval where
  "validation_body =
     JObj [(''statusCode'', JNum 400),
           (''message'', JArr [JStr ''email must be an email'']),
           (''error'', JStr ''Bad Request'')]"

declare api.simps [simp del]

section \<open>Reading the trace\<close>

lemma attempts_of_append: "attempts_of (xs @ ys) = attempts_of xs @ attempts_of ys"
  by (induction xs rule: attempts_of.induct) simp_all

lemma navigations_of_append:
  "navigations_of (xs @ ys) = navigations_of xs @ navigations_of ys"
  by (induction xs rule: navigations_of.induct) simp_all

lemma timers_of_append: "timers_of (xs @ ys) = timers_of xs @ timers_of ys"
  by (induction xs rule: timers_of.induct) simp_all

lemma emit_fields:
  "localStorage (emit e w) = localStorage w"
  "pathname (emit e w) = pathname w"
  "events (emit e w) = events w @ [e]"
  by (simp_all add: emit_def)

section \<open>The request interceptor only touches headers\<close>

lemma request_onFulfilled_isRetry:
  "isRetry (request_onFulfilled ls cfg) = isRetry cfg"
  by (simp add: request_onFulfilled_def Let_def split: option.splits)

lemma request_onFulfilled_again:
  "request_onFulfilled ls ((request_onFulfilled ls cfg)\<lparr>isRetry := b\<rparr>)
     = (request_onFulfilled ls cfg)\<lparr>isRetry := b\<rparr>"
  by (auto simp: request_onFulfilled_def Let_def fun_eq_iff split: option.splits)

section \<open>Effects of the status switch\<close>

lemma status_switch_attempts:
  "attempts_of (events (status_switch w resp)) = attempts_of (events w)"
  by (simp add: status_switch_def Let_def emit_def attempts_of_append)

lemma status_switch_timers:
  "timers_of (events (status_switch w resp)) = timers_of (events w)"
  by (simp add: status_switch_def Let_def emit_def timers_of_append)

lemma status_switch_pathname: "pathname (status_switch w resp) = pathname w"
  by (simp add: status_switch_def Let_def emit_def)

lemma status_switch_not_401:
  "status resp \<noteq> 401 \<Longrightarrow> localStorage (status_switch w resp) = localStorage w"
  by (simp add: status_switch_def emit_def)

lemma status_switch_401:
  "status resp = 401 \<Longrightarrow>
   status_switch w resp =
     (if pathname w \<noteq> ''/login''
      then emit (Navigate ''/login'') (w\<lparr>localStorage := clearStorage (localStorage w)\<rparr>)
      else w\<lparr>localStorage := clearStorage (localStorage w)\<rparr>)"
  by (simp add: status_switch_def Let_def)

lemma clearStorage_keys:
  "getToken (clearStorage ls) = None"
  "getUserRole (clearStorage ls) = None"
  "getUserDataRaw (clearStorage ls) = None"
  by (simp_all add: clearStorage_def removeUserData_def removeUserRole_def removeToken_def
        removeItem_def getToken_def getUserRole_def getUserDataRaw_def getItem_def)

section \<open>One step of a call, by the transport's answer\<close>

lemma response_onRejected_Reject:
  "retry_config err = None \<Longrightarrow>
   fst (response_onRejected w err) = Reject (rejection_of err)"
  by (simp add: response_onRejected_def rejection_of_def split: option.splits)

lemma api_Fulfilled:
  assumes "T (length (attempts_of (events w))) (request_onFulfilled (localStorage w) cfg)
             = Fulfilled resp"
  shows "api T w cfg
           = (Inr resp, emit (Dispatched (request_onFulfilled (localStorage w) cfg)) w)"
  using assms by (simp add: api.simps [of T w cfg] Let_def response_onFulfilled_def)

lemma api_Rejected_response:
  assumes "T (length (attempts_of (events w))) (request_onFulfilled (localStorage w) cfg)
             = Rejected (Some resp) m c"
  shows "api T w cfg
           = (Inl (rejection_of
                     (error_of (request_onFulfilled (localStorage w) cfg) (Some resp) m c)),
              status_switch
                (emit (Dispatched (request_onFulfilled (localStorage w) cfg)) w) resp)"
  using assms
  by (simp add: api.simps [of T w cfg] Let_def response_onRejected_def retry_config_def
        error_of_def rejection_of_def)

lemma api_Rejected_final:
  assumes "T (length (attempts_of (events w))) (request_onFulfilled (localStorage w) cfg)
             = Rejected None m c"
    and "isRetry cfg"
  shows "api T w cfg
           = (Inl (rejection_of
                     (error_of (request_onFulfilled (localStorage w) cfg) None m c)),
              emit (ConsoleErrorObj ''Network Error (no response):''
                      (error_of (request_onFulfilled (localStorage w) cfg) None m c))
                (emit (Dispatched (request_onFulfilled (localStorage w) cfg)) w))"
  using assms
  by (simp add: api.simps [of T w cfg] Let_def response_onRejected_def retry_config_def
        error_of_def rejection_of_def request_onFulfilled_isRetry)

lemma api_Rejected_retry:
  assumes "T (length (attempts_of (events w))) (request_onFulfilled (localStorage w) cfg)
             = Rejected None m c"
    and "\<not> isRetry cfg"
  shows "api T w cfg
           = api T (retry_world w (request_onFulfilled (localStorage w) cfg))
               ((request_onFulfilled (localStorage w) cfg)\<lparr>isRetry := True\<rparr>)"
  using assms
  by (simp add: api.simps [of T w cfg] Let_def response_onRejected_def retry_config_def
        error_of_def request_onFulfilled_isRetry retry_world_def)

section \<open>The world of the retry\<close>

lemma retry_world_fields:
  "localStorage (retry_world w cfg1) = localStorage w"
  "pathname (retry_world w cfg1) = pathname w"
  "attempts_of (events (retry_world w cfg1)) = attempts_of (events w) @ [cfg1]"
  "timers_of (events (retry_world w cfg1)) = timers_of (events w) @ [1000]"
  "navigations_of (events (retry_world w cfg1)) = navigations_of (events w)"
  by (simp_all add: retry_world_def emit_def attempts_of_append timers_of_append
        navigations_of_append)

text \<open>A config that already carries the flag is attempted once, whatever the answer.\<close>

lemma api_flagged_attempts:
  assumes "isRetry cfg"
  shows "attempts_of (events (snd (api T w cfg)))
           = attempts_of (events w) @ [request_onFulfilled (localStorage w) cfg]"
proof (cases "T (length (attempts_of (events w))) (request_onFulfilled (localStorage w) cfg)")
  case (Fulfilled resp)
  then show ?thesis
    by (simp add: api_Fulfilled emit_def attempts_of_append)
next
  case (Rejected r m c)
  show ?thesis
  proof (cases r)
    case None
    with Rejected assms show ?thesis
      by (simp add: api_Rejected_final emit_def attempts_of_append)
  next
    case (Some resp)
    with Rejected show ?thesis
      by (simp add: api_Rejected_response status_switch_attempts emit_def
            attempts_of_append)
  qed
qed

text \<open>Every call dispatches one request, or two when the first one got no response.\<close>

lemma api_attempts:
  "attempts_of (events (snd (api T w cfg)))
     = attempts_of (events w) @ [request_onFulfilled (localStorage w) cfg]
   \<or> attempts_of (events (snd (api T w cfg)))
     = attempts_of (events w) @ [request_onFulfilled (localStorage w) cfg,
          (request_onFulfilled (localStorage w) cfg)\<lparr>isRetry := True\<rparr>]"
proof (cases "T (length (attempts_of (events w))) (request_onFulfilled (localStorage w) cfg)")
  case (Fulfilled resp)
  then show ?thesis
    by (simp add: api_Fulfilled emit_def attempts_of_append)
next
  case (Rejected r m c)
  show ?thesis
  proof (cases r)
    case (Some resp)
    with Rejected show ?thesis
      by (simp add: api_Rejected_response status_switch_attempts emit_def
            attempts_of_append)
  next
    case None
    show ?thesis
    proof (cases "isRetry cfg")
      case True
      then show ?thesis by (simp add: api_flagged_attempts)
    next
      case False
      have "api T w cfg
              = api T (retry_world w (request_onFulfilled (localStorage w) cfg))
                  ((request_onFulfilled (localStorage w) cfg)\<lparr>isRetry := True\<rparr>)"
        using Rejected None False by (simp add: api_Rejected_retry)
      then show ?thesis
        by (simp add: api_flagged_attempts retry_world_fields request_onFulfilled_again)
    qed
  qed
qed

section \<open>Claims about the session store\<close>

text \<open>
  C9. Clearing the session is idempotent: removing the token, role and user-data keys
  from any store twice leaves the same store as removing them once.
\<close>

theorem clearStorage_idempotent: "clearStorage (clearStorage ls) = clearStorage ls"
  by (simp add: clearStorage_def removeUserData_def removeUserRole_def removeToken_def
        removeItem_def)

section \<open>Claims about calls that get an answer\<close>

text \<open>
  C8. When the attempt is fulfilled, the call resolves with exactly the response the
  transport delivered, and the persisted store is the one the call started with.
\<close>

theorem success_passes_through:
  assumes "T (length (attempts_of (events w))) (request_onFulfilled (localStorage w) cfg)
             = Fulfilled resp"
  shows "fst (api T w cfg) = Inr resp
         \<and> localStorage (snd (api T w cfg)) = localStorage w"
  using assms by (simp add: api_Fulfilled emit_fields)

theorem success_passes_through_witness:
  "answer_with 200 (JArr []) (length (attempts_of (events (browser ''/doctors'' (session_store ''tok1'')))))
       (request_onFulfilled (localStorage (browser ''/doctors'' (session_store ''tok1'')))
          (get_config ''/doctors''))
     = Fulfilled \<lparr>status = 200, data = JArr [],
         rconfig = request_onFulfilled (session_store ''tok1'') (get_config ''/doctors'')\<rparr>
   \<and> fst (api (answer_with 200 (JArr [])) (browser ''/doctors'' (session_store ''tok1''))
            (get_config ''/doctors''))
     = Inr \<lparr>status = 200, data = JArr [],
         rconfig = request_onFulfilled (session_store ''tok1'') (get_config ''/doctors'')\<rparr>
   \<and> localStorage (snd (api (answer_with 200 (JArr []))
         (browser ''/doctors'' (session_store ''tok1'')) (get_config ''/doctors'')))
     = session_store ''tok1''"
  using success_passes_through
    [of "answer_with 200 (JArr [])" "browser ''/doctors'' (session_store ''tok1'')"
        "get_config ''/doctors''"
        "\<lparr>status = 200, data = JArr [],
          rconfig = request_onFulfilled (session_store ''tok1'') (get_config ''/doctors'')\<rparr>"]
  by (simp add: browser_def)

text \<open>
  C2. When the attempt is answered with a failure status, the call dispatches that one
  request and no other, and rejects with the status of the response as \<open>status\<close> and
  the whole body as \<open>data\<close>. This holds for every status and whether or not the config
  carries the retry flag.
\<close>

theorem http_error_is_not_retried:
  assumes "T (length (attempts_of (events w))) (request_onFulfilled (localStorage w) cfg)
             = Rejected (Some resp) m c"
  shows "attempts_of (events (snd (api T w cfg)))
           = attempts_of (events w) @ [request_onFulfilled (localStorage w) cfg]
         \<and> timers_of (events (snd (api T w cfg))) = timers_of (events w)
         \<and> fst (api T w cfg)
           = Inl \<lparr>ne_status = JNum (status resp),
                  ne_message = js_or (message_of (data resp)) (JStr ''An error occurred''),
                  ne_data = Some (data resp),
                  ne_code = None,
                  ne_originalError = None\<rparr>"
  using assms
  by (simp add: api_Rejected_response status_switch_attempts status_switch_timers
        emit_def attempts_of_append timers_of_append rejection_of_def error_of_def)

theorem http_error_is_not_retried_witness:
  "answer_with 500 (JObj [(''message'', JStr ''boom'')])
       (length (attempts_of (events (browser ''/doctors'' (session_store ''tok1'')))))
       (request_onFulfilled (localStorage (browser ''/doctors'' (session_store ''tok1'')))
          (get_config ''/doctors''))
     = Rejected
         (Some \<lparr>status = 500, data = JObj [(''message'', JStr ''boom'')],
            rconfig = request_onFulfilled (session_store ''tok1'') (get_config ''/doctors'')\<rparr>)
         (Some ''Request failed'') (Some ''ERR_BAD_RESPONSE'')
   \<and> length (attempts_of (events (snd (api (answer_with 500 (JObj [(''message'', JStr ''boom'')]))
         (browser ''/doctors'' (session_store ''tok1'')) (get_config ''/doctors''))))) = 1
   \<and> fst (api (answer_with 500 (JObj [(''message'', JStr ''boom'')]))
         (browser ''/doctors'' (session_store ''tok1'')) (get_config ''/doctors''))
     = Inl \<lparr>ne_status = JNum 500, ne_message = JStr ''boom'',
            ne_data = Some (JObj [(''message'', JStr ''boom'')]),
            ne_code = None, ne_originalError = None\<rparr>"
  using http_error_is_not_retried
    [of "answer_with 500 (JObj [(''message'', JStr ''boom'')])"
        "browser ''/doctors'' (session_store ''tok1'')" "get_config ''/doctors''"
        "\<lparr>status = 500, data = JObj [(''message'', JStr ''boom'')],
          rconfig = request_onFulfilled (session_store ''tok1'') (get_config ''/doctors'')\<rparr>"
        "Some ''Request failed''" "Some ''ERR_BAD_RESPONSE''"]
  by (simp add: browser_def js_or_def)

text \<open>
  C5. A response with any status other than 401 leaves the persisted store as it was;
  in particular the token, role and user-data keys keep their values.
\<close>

theorem only_401_touches_session:
  assumes "T (length (attempts_of (events w))) (request_onFulfilled (localStorage w) cfg)
             = Rejected (Some resp) m c"
    and "status resp \<noteq> 401"
  shows "localStorage (snd (api T w cfg)) = localStorage w"
  using assms by (simp add: api_Rejected_response status_switch_not_401 emit_fields)

theorem only_401_touches_session_witness:
  "answer_with 403 JNull
       (length (attempts_of (events (browser ''/doctors'' (session_store ''tok1'')))))
       (request_onFulfilled (localStorage (browser ''/doctors'' (session_store ''tok1'')))
          (get_config ''/doctors''))
     = Rejected
         (Some \<lparr>status = 403, data = JNull,
            rconfig = request_onFulfilled (session_store ''tok1'') (get_config ''/doctors'')\<rparr>)
         (Some ''Request failed'') (Some ''ERR_BAD_RESPONSE'')
   \<and> (403::int) \<noteq> 401
   \<and> localStorage (snd (api (answer_with 403 JNull)
         (browser ''/doctors'' (session_store ''tok1'')) (get_config ''/doctors'')))
     = session_store ''tok1''"
  using only_401_touches_session
    [of "answer_with 403 JNull" "browser ''/doctors'' (session_store ''tok1'')"
        "get_config ''/doctors''"
        "\<lparr>status = 403, data = JNull,
          rconfig = request_onFulfilled (session_store ''tok1'') (get_config ''/doctors'')\<rparr>"
        "Some ''Request failed''" "Some ''ERR_BAD_RESPONSE''"]
  by (simp add: browser_def)

text \<open>
  C4. When the attempt is answered with status 401, the world handed back together with
  the rejection already has the token, role and user-data keys removed; exactly one
  navigation to \<open>/login\<close> has been triggered if the current path is not \<open>/login\<close>, and
  none if it is; and the call rejects with status 401.
\<close>

theorem unauthorized_clears_session:
  assumes "T (length (attempts_of (events w))) (request_onFulfilled (localStorage w) cfg)
             = Rejected (Some resp) m c"
    and "status resp = 401"
  shows "getToken (localStorage (snd (api T w cfg))) = None
         \<and> getUserRole (localStorage (snd (api T w cfg))) = None
         \<and> getUserDataRaw (localStorage (snd (api T w cfg))) = None
         \<and> navigations_of (events (snd (api T w cfg)))
           = navigations_of (events w) @ (if pathname w \<noteq> ''/login'' then [''/login''] else [])
         \<and> (\<exists>e. fst (api T w cfg) = Inl e \<and> ne_status e = JNum 401)"
  using assms
  by (simp add: api_Rejected_response status_switch_401 emit_def clearStorage_keys
        navigations_of_append rejection_of_def error_of_def)


theorem unauthorized_clears_session_witness:
  "answer_with 401 (JObj [(''message'', JStr ''jwt expired'')])
       (length (attempts_of (events (browser ''/profile'' (session_store ''expired'')))))
       (request_onFulfilled (localStorage (browser ''/profile'' (session_store ''expired'')))
          (get_config ''/user/profile''))
     = Rejected
         (Some \<lparr>status = 401, data = JObj [(''message'', JStr ''jwt expired'')],
            rconfig = request_onFulfilled (session_store ''expired'')
                        (get_config ''/user/profile'')\<rparr>)
         (Some ''Request failed'') (Some ''ERR_BAD_RESPONSE'')
   \<and> getToken (session_store ''expired'') = Some ''expired''
   \<and> getToken (localStorage (snd (api (answer_with 401 (JObj [(''message'', JStr ''jwt expired'')]))
         (browser ''/profile'' (session_store ''expired'')) (get_config ''/user/profile'')))) = None
   \<and> getUserRole (localStorage (snd (api (answer_with 401 (JObj [(''message'', JStr ''jwt expired'')]))
         (browser ''/profile'' (session_store ''expired'')) (get_config ''/user/profile'')))) = None
   \<and> getUserDataRaw (localStorage (snd (api (answer_with 401 (JObj [(''message'', JStr ''jwt expired'')]))
         (browser ''/profile'' (session_store ''expired'')) (get_config ''/user/profile'')))) = None
   \<and> navigations_of (events (snd (api (answer_with 401 (JObj [(''message'', JStr ''jwt expired'')]))
         (browser ''/profile'' (session_store ''expired'')) (get_config ''/user/profile''))))
     = [''/login'']
   \<and> navigations_of (events (snd (api (answer_with 401 (JObj [(''message'', JStr ''jwt expired'')]))
         (browser ''/login'' (session_store ''expired'')) (get_config ''/user/profile''))))
     = []"
  using unauthorized_clears_session
    [of "answer_with 401 (JObj [(''message'', JStr ''jwt expired'')])"
        "browser ''/profile'' (session_store ''expired'')" "get_config ''/user/profile''"
        "\<lparr>status = 401, data = JObj [(''message'', JStr ''jwt expired'')],
          rconfig = request_onFulfilled (session_store ''expired'')
                      (get_config ''/user/profile'')\<rparr>"
        "Some ''Request failed''" "Some ''ERR_BAD_RESPONSE''"]
    unauthorized_clears_session
    [of "answer_with 401 (JObj [(''message'', JStr ''jwt expired'')])"
        "browser ''/login'' (session_store ''expired'')" "get_config ''/user/profile''"
        "\<lparr>status = 401, data = JObj [(''message'', JStr ''jwt expired'')],
          rconfig = request_onFulfilled (session_store ''expired'')
                      (get_config ''/user/profile'')\<rparr>"
        "Some ''Request failed''" "Some ''ERR_BAD_RESPONSE''"]
  by (simp add: browser_def session_store_def getToken_def getItem_def)

section \<open>Claims about the retry\<close>

lemma status_switch_events:
  "\<exists>rest. events (status_switch w resp) = events w @ rest
          \<and> attempts_of rest = [] \<and> timers_of rest = []"
  by (simp add: status_switch_def Let_def emit_def)

lemma api_flagged_events:
  assumes "isRetry cfg"
  shows "\<exists>rest. events (snd (api T w cfg))
                  = events w @ [Dispatched (request_onFulfilled (localStorage w) cfg)] @ rest
          \<and> attempts_of rest = [] \<and> timers_of rest = []"
proof (cases "T (length (attempts_of (events w))) (request_onFulfilled (localStorage w) cfg)")
  case (Fulfilled resp)
  then show ?thesis by (simp add: api_Fulfilled emit_def)
next
  case (Rejected r m c)
  show ?thesis
  proof (cases r)
    case None
    with Rejected assms show ?thesis by (simp add: api_Rejected_final emit_def)
  next
    case (Some resp)
    obtain rest where
      "events (status_switch (emit (Dispatched (request_onFulfilled (localStorage w) cfg)) w) resp)
         = events (emit (Dispatched (request_onFulfilled (localStorage w) cfg)) w) @ rest"
      "attempts_of rest = []" "timers_of rest = []"
      using status_switch_events by blast
    with Rejected Some show ?thesis by (simp add: api_Rejected_response emit_def)
  qed
qed

lemma api_flagged_result:
  assumes "isRetry cfg"
  shows "fst (api T w cfg)
           = settle (request_onFulfilled (localStorage w) cfg)
               (T (length (attempts_of (events w))) (request_onFulfilled (localStorage w) cfg))"
proof (cases "T (length (attempts_of (events w))) (request_onFulfilled (localStorage w) cfg)")
  case (Fulfilled resp)
  then show ?thesis by (simp add: api_Fulfilled settle_def)
next
  case (Rejected r m c)
  show ?thesis
  proof (cases r)
    case None
    with Rejected assms show ?thesis by (simp add: api_Rejected_final settle_def)
  next
    case (Some resp)
    with Rejected show ?thesis by (simp add: api_Rejected_response settle_def)
  qed
qed

text \<open>
  C1. A fresh call whose first attempt and whose retry both get no response dispatches
  exactly two requests, the second being the first with the retry flag set, and rejects
  with status 0. The transport is never asked for a third attempt, whatever it would
  have answered.
\<close>

theorem single_retry_bound:
  assumes "\<not> isRetry cfg"
    and "T (length (attempts_of (events w))) (request_onFulfilled (localStorage w) cfg)
           = Rejected None m1 c1"
    and "T (Suc (length (attempts_of (events w))))
           ((request_onFulfilled (localStorage w) cfg)\<lparr>isRetry := True\<rparr>)
           = Rejected None m2 c2"
  shows "attempts_of (events (snd (api T w cfg)))
           = attempts_of (events w) @ [request_onFulfilled (localStorage w) cfg,
                (request_onFulfilled (localStorage w) cfg)\<lparr>isRetry := True\<rparr>]
         \<and> length (attempts_of (events (snd (api T w cfg))))
           = length (attempts_of (events w)) + 2
         \<and> (\<exists>e. fst (api T w cfg) = Inl e \<and> ne_status e = JNum 0)"
proof -
  let ?cfg1 = "request_onFulfilled (localStorage w) cfg"
  let ?cfg2 = "?cfg1\<lparr>isRetry := True\<rparr>"
  let ?w2 = "retry_world w ?cfg1"
  have step: "api T w cfg = api T ?w2 ?cfg2"
    using assms(1,2) by (simp add: api_Rejected_retry)
  have second: "T (length (attempts_of (events ?w2))) (request_onFulfilled (localStorage ?w2) ?cfg2)
                  = Rejected None m2 c2"
    using assms(3) by (simp add: request_onFulfilled_again retry_world_fields)
  have flagged: "isRetry ?cfg2" by simp
  have att: "attempts_of (events (snd (api T ?w2 ?cfg2)))
               = attempts_of (events w) @ [?cfg1, ?cfg2]"
    using api_flagged_attempts [OF flagged, of T ?w2]
    by (simp add: request_onFulfilled_again retry_world_fields)
  have res: "fst (api T ?w2 ?cfg2) = Inl (rejection_of (error_of ?cfg2 None m2 c2))"
    using api_flagged_result [OF flagged, of T ?w2] second
    by (simp add: request_onFulfilled_again retry_world_fields settle_def)
  have "ne_status (rejection_of (error_of ?cfg2 None m2 c2)) = JNum 0"
    by (simp add: rejection_of_def error_of_def)
  with att res step show ?thesis by simp
qed

theorem single_retry_bound_witness:
  "\<not> isRetry (get_config ''/doctors'')
   \<and> always_timeout 0 (request_onFulfilled (session_store ''tok1'') (get_config ''/doctors''))
       = Rejected None (Some ''timeout of 10000ms exceeded'') (Some ''ECONNABORTED'')
   \<and> always_timeout 1
         ((request_onFulfilled (session_store ''tok1'') (get_config ''/doctors''))\<lparr>isRetry := True\<rparr>)
       = Rejected None (Some ''timeout of 10000ms exceeded'') (Some ''ECONNABORTED'')
   \<and> length (attempts_of (events (snd (api always_timeout
         (browser ''/doctors'' (session_store ''tok1'')) (get_config ''/doctors''))))) = 2
   \<and> (\<exists>e. fst (api always_timeout (browser ''/doctors'' (session_store ''tok1''))
               (get_config ''/doctors'')) = Inl e \<and> ne_status e = JNum 0)"
  using single_retry_bound
    [of "get_config ''/doctors''" always_timeout
        "browser ''/doctors'' (session_store ''tok1'')"
        "Some ''timeout of 10000ms exceeded''" "Some ''ECONNABORTED''"
        "Some ''timeout of 10000ms exceeded''" "Some ''ECONNABORTED''"]
  by (simp add: browser_def get_config_def)


text \<open>
  C7. When the first attempt of a fresh call gets no response, the trace continues with
  the warning, a timer of 1000 ms and then one dispatch of the same config with the retry
  flag set; nothing after that is a dispatch or a timer. The call settles exactly as
  that second attempt does: it resolves with its response, or rejects with the error
  normalized from its failure.
\<close>

theorem retry_after_delay:
  assumes "\<not> isRetry cfg"
    and "T (length (attempts_of (events w))) (request_onFulfilled (localStorage w) cfg)
           = Rejected None m c"
  shows "(\<exists>rest. events (snd (api T w cfg))
                  = events w
                    @ [Dispatched (request_onFulfilled (localStorage w) cfg),
                       ConsoleWarn ''Network error detected, retrying request once...''
                         (JStr (url (request_onFulfilled (localStorage w) cfg))),
                       TimerSet 1000,
                       Dispatched ((request_onFulfilled (localStorage w) cfg)\<lparr>isRetry := True\<rparr>)]
                    @ rest
                \<and> attempts_of rest = [] \<and> timers_of rest = [])
         \<and> fst (api T w cfg)
           = settle ((request_onFulfilled (localStorage w) cfg)\<lparr>isRetry := True\<rparr>)
               (T (Suc (length (attempts_of (events w))))
                  ((request_onFulfilled (localStorage w) cfg)\<lparr>isRetry := True\<rparr>))"
proof -
  let ?cfg1 = "request_onFulfilled (localStorage w) cfg"
  let ?cfg2 = "?cfg1\<lparr>isRetry := True\<rparr>"
  let ?w2 = "retry_world w ?cfg1"
  have step: "api T w cfg = api T ?w2 ?cfg2"
    using assms by (simp add: api_Rejected_retry)
  have flagged: "isRetry ?cfg2" by simp
  have ev2: "events ?w2
               = events w @ [Dispatched ?cfg1,
                   ConsoleWarn ''Network error detected, retrying request once...''
                     (JStr (url ?cfg1)),
                   TimerSet 1000]"
    by (simp add: retry_world_def emit_def)
  obtain rest where rest:
    "events (snd (api T ?w2 ?cfg2)) = events ?w2 @ [Dispatched ?cfg2] @ rest"
    "attempts_of rest = []" "timers_of rest = []"
    using api_flagged_events [OF flagged, of T ?w2]
    by (auto simp: request_onFulfilled_again retry_world_fields)
  have res: "fst (api T ?w2 ?cfg2)
               = settle ?cfg2 (T (Suc (length (attempts_of (events w)))) ?cfg2)"
    using api_flagged_result [OF flagged, of T ?w2]
    by (simp add: request_onFulfilled_again retry_world_fields)
  from rest ev2 step res show ?thesis by simp
qed

theorem retry_after_delay_witness:
  "\<not> isRetry (get_config ''/doctors'')
   \<and> timeout_once (JArr []) 0
       (request_onFulfilled (session_store ''tok1'') (get_config ''/doctors''))
     = Rejected None (Some ''timeout of 10000ms exceeded'') (Some ''ECONNABORTED'')
   \<and> fst (api (timeout_once (JArr [])) (browser ''/doctors'' (session_store ''tok1''))
            (get_config ''/doctors''))
     = Inr \<lparr>status = 200, data = JArr [],
         rconfig = (request_onFulfilled (session_store ''tok1'')
                      (get_config ''/doctors''))\<lparr>isRetry := True\<rparr>\<rparr>
   \<and> fst (api always_timeout (browser ''/doctors'' (session_store ''tok1''))
            (get_config ''/doctors''))
     = Inl \<lparr>ne_status = JNum 0, ne_message = JStr ''timeout of 10000ms exceeded'',
            ne_data = None, ne_code = Some (JStr ''ECONNABORTED''),
            ne_originalError =
              Some \<lparr>response = None,
                    config = Some ((request_onFulfilled (session_store ''tok1'')
                                      (get_config ''/doctors''))\<lparr>isRetry := True\<rparr>),
                    message = Some ''timeout of 10000ms exceeded'',
                    code = Some ''ECONNABORTED''\<rparr>\<rparr>"
  using retry_after_delay
    [of "get_config ''/doctors''" "timeout_once (JArr [])"
        "browser ''/doctors'' (session_store ''tok1'')"
        "Some ''timeout of 10000ms exceeded''" "Some ''ECONNABORTED''"]
    retry_after_delay
    [of "get_config ''/doctors''" always_timeout
        "browser ''/doctors'' (session_store ''tok1'')"
        "Some ''timeout of 10000ms exceeded''" "Some ''ECONNABORTED''"]
  by (simp add: browser_def get_config_def settle_def rejection_of_def error_of_def
        js_or_def js_of_string_def)

section \<open>Claims about the request phase\<close>

lemma browser_fields:
  "localStorage (browser path ls) = ls"
  "pathname (browser path ls) = path"
  "events (browser path ls) = []"
  by (simp_all add: browser_def)

lemma request_onFulfilled_Authorization:
  "headers (request_onFulfilled ls cfg) ''Authorization''
     = (case getToken ls of
          None \<Rightarrow> headers cfg ''Authorization''
        | Some t \<Rightarrow> if t \<noteq> [] then Some (''Bearer '' @ t) else headers cfg ''Authorization'')"
  by (simp add: request_onFulfilled_def Let_def split: option.splits)

lemma dispatched_by_cases:
  "dispatched_by T w cfg = [request_onFulfilled (localStorage w) cfg]
   \<or> dispatched_by T w cfg
       = [request_onFulfilled (localStorage w) cfg,
          (request_onFulfilled (localStorage w) cfg)\<lparr>isRetry := True\<rparr>]"
  using api_attempts [of T w cfg] by (auto simp: dispatched_by_def)

text \<open>
  C3. Every request a call dispatches (the first attempt and the retry, if any) carries
  \<open>Authorization: Bearer t\<close> when the store holds the token \<open>t\<close>; when the store holds
  no token, its \<open>Authorization\<close> header is whatever the caller's config had, so none is
  added. A token is a non-empty string: the stored empty string, which the test
  \<open>if (token)\<close> treats like a missing key, counts as no token. At least one request is
  dispatched.
\<close>

theorem auth_header_injection:
  "dispatched_by T w cfg \<noteq> []
   \<and> (\<forall>c \<in> set (dispatched_by T w cfg).
        (\<forall>t. getToken (localStorage w) = Some t \<and> t \<noteq> []
              \<longrightarrow> headers c ''Authorization'' = Some (''Bearer '' @ t))
        \<and> (getToken (localStorage w) = None \<or> getToken (localStorage w) = Some []
              \<longrightarrow> headers c ''Authorization'' = headers cfg ''Authorization''))"
  using dispatched_by_cases [of T w cfg]
  by (auto simp: request_onFulfilled_Authorization)

theorem auth_header_injection_witness:
  "dispatched_by (answer_with 200 JNull) (browser ''/doctors'' (session_store ''abc''))
       (get_config ''/doctors'')
     = [request_onFulfilled (session_store ''abc'') (get_config ''/doctors'')]
   \<and> getToken (session_store ''abc'') = Some ''abc''
   \<and> headers (request_onFulfilled (session_store ''abc'') (get_config ''/doctors''))
        ''Authorization'' = Some ''Bearer abc''
   \<and> dispatched_by (answer_with 200 JNull) (browser ''/doctors'' Map.empty)
       (get_config ''/doctors'')
     = [request_onFulfilled Map.empty (get_config ''/doctors'')]
   \<and> getToken Map.empty = None
   \<and> headers (request_onFulfilled Map.empty (get_config ''/doctors'')) ''Authorization''
     = None"
proof -
  have one: "dispatched_by (answer_with 200 JNull) (browser ''/doctors'' ls)
               (get_config ''/doctors'')
             = [request_onFulfilled ls (get_config ''/doctors'')]" for ls
    by (simp add: dispatched_by_def api_Fulfilled browser_def emit_def)
  have tok: "getToken (session_store ''abc'') = Some ''abc''"
    by (simp add: getToken_def getItem_def session_store_def)
  have none: "getToken Map.empty = None"
    by (simp add: getToken_def getItem_def)
  have hdr: "headers (get_config ''/doctors'') ''Authorization'' = None"
    by (simp add: get_config_def)
  from auth_header_injection
         [of "answer_with 200 JNull" "browser ''/doctors'' (session_store ''abc'')"
             "get_config ''/doctors''"]
       auth_header_injection
         [of "answer_with 200 JNull" "browser ''/doctors'' Map.empty"
             "get_config ''/doctors''"]
  show ?thesis
    by (simp add: one tok none hdr browser_fields)
qed


section \<open>Claims about the shape of a rejection\<close>

lemma api_settles:
  "dispatched_by T w cfg \<noteq> []
   \<and> length (dispatched_by T w cfg) \<le> 2
   \<and> fst (api T w cfg) = settle (last (dispatched_by T w cfg)) (last_answer T w cfg)"
proof -
  let ?n = "length (attempts_of (events w))"
  let ?cfg1 = "request_onFulfilled (localStorage w) cfg"
  let ?cfg2 = "?cfg1\<lparr>isRetry := True\<rparr>"
  let ?w2 = "retry_world w ?cfg1"
  have once: ?thesis
    if att: "attempts_of (events (snd (api T w cfg))) = attempts_of (events w) @ [?cfg1]"
      and res: "fst (api T w cfg) = settle ?cfg1 (T ?n ?cfg1)"
  proof -
    have "dispatched_by T w cfg = [?cfg1]"
      by (simp add: dispatched_by_def att)
    with res show ?thesis by (simp add: last_answer_def)
  qed
  show ?thesis
  proof (cases "isRetry cfg")
    case True
    then show ?thesis
      using once api_flagged_attempts [of cfg T w] api_flagged_result [of cfg T w] by blast
  next
    case False
    show ?thesis
    proof (cases "T ?n ?cfg1")
      case (Fulfilled resp)
      then show ?thesis
        by (intro once) (simp_all add: api_Fulfilled emit_def attempts_of_append settle_def)
    next
      case (Rejected r m c)
      show ?thesis
      proof (cases r)
        case (Some resp)
        with Rejected show ?thesis
          by (intro once)
             (simp_all add: api_Rejected_response status_switch_attempts emit_def
                attempts_of_append settle_def)
      next
        case None
        have flagged: "isRetry ?cfg2" by simp
        have step: "api T w cfg = api T ?w2 ?cfg2"
          using Rejected None False by (simp add: api_Rejected_retry)
        have att: "attempts_of (events (snd (api T w cfg)))
                     = attempts_of (events w) @ [?cfg1, ?cfg2]"
          using api_flagged_attempts [OF flagged, of T ?w2]
          by (simp add: step request_onFulfilled_again retry_world_fields)
        have res: "fst (api T w cfg) = settle ?cfg2 (T (Suc ?n) ?cfg2)"
          using api_flagged_result [OF flagged, of T ?w2]
          by (simp add: step request_onFulfilled_again retry_world_fields)
        have "dispatched_by T w cfg = [?cfg1, ?cfg2]"
          by (simp add: dispatched_by_def att)
        with res show ?thesis by (simp add: last_answer_def)
      qed
    qed
  qed
qed

lemma network_message_string:
  "js_or (js_of_string m) (JStr d) = JStr (str_or m d)"
  by (simp add: js_or_def js_of_string_def str_or_def split: option.splits)

lemma rejection_of_status: "is_number (ne_status (rejection_of err))"
  by (simp add: rejection_of_def split: option.splits)

lemma rejection_of_network_message:
  "ne_data (rejection_of err) = None \<Longrightarrow> is_string (ne_message (rejection_of err))"
  by (simp add: rejection_of_def js_or_def js_of_string_def split: option.splits)

lemma rejection_of_http_message:
  "ne_data (rejection_of err) = Some d \<Longrightarrow>
   ne_message (rejection_of err)
     = (if truthy (message_of d) then message_of d else JStr ''An error occurred'')"
  by (auto simp: rejection_of_def js_or_def split: option.splits)

text \<open>
  C6, as the spec states it: every rejection has a numeric \<open>status\<close> and a string
  \<open>message\<close>. It fails for a 400 response whose body carries a list of messages under
  \<open>message\<close>: the list itself becomes the \<open>message\<close> of the rejection.
\<close>

theorem error_normalization_counterexample:
  "\<not> rejects_normalized
       (fst (api (answer_with 400 validation_body) (browser ''/register'' Map.empty)
               (post_config ''/auth/register'' (JObj [(''email'', JStr ''nobody'')]))))"
  by (simp add: api_Rejected_response browser_fields rejects_normalized_def
        normalized_shape_def rejection_of_def error_of_def validation_body_def js_or_def)

text \<open>
  C6, amended. Every call dispatches at least one request, and it settles by the
  transport's answer to the last request it dispatched. A fulfilled answer resolves the
  call with that response, and a call resolves in no other case, so no failure is
  swallowed. An answer without a response (a connection-level failure) rejects with
  status 0 and a string \<open>message\<close>: the error's message, or the fixed text when it has
  none. An answer with a response rejects with the status of the response as \<open>status\<close>
  and the body as \<open>data\<close>; its \<open>message\<close> is the body's \<open>message\<close> field if that is
  truthy and the fixed text otherwise, hence a string whenever the body's \<open>message\<close> is
  a string or is missing or falsy (as for a body that is not an object, such as unparsed
  text), and the body's value itself otherwise.
\<close>

theorem error_normalization:
  "dispatched_by T w cfg \<noteq> []
   \<and> length (dispatched_by T w cfg) \<le> 2
   \<and> (\<forall>resp. last_answer T w cfg = Fulfilled resp \<longrightarrow> fst (api T w cfg) = Inr resp)
   \<and> (\<forall>resp. fst (api T w cfg) = Inr resp \<longrightarrow> last_answer T w cfg = Fulfilled resp)
   \<and> (\<forall>m c. last_answer T w cfg = Rejected None m c \<longrightarrow>
          (\<exists>e. fst (api T w cfg) = Inl e
               \<and> ne_status e = JNum 0
               \<and> ne_data e = None
               \<and> ne_message e
                   = JStr (str_or m ''Network error. Please check your connection.'')
               \<and> is_number (ne_status e) \<and> is_string (ne_message e)))
   \<and> (\<forall>resp m c. last_answer T w cfg = Rejected (Some resp) m c \<longrightarrow>
          (\<exists>e. fst (api T w cfg) = Inl e
               \<and> ne_status e = JNum (status resp)
               \<and> ne_data e = Some (data resp)
               \<and> ne_message e
                   = (if truthy (message_of (data resp)) then message_of (data resp)
                      else JStr ''An error occurred'')
               \<and> is_number (ne_status e)
               \<and> (is_string (message_of (data resp)) \<or> \<not> truthy (message_of (data resp))
                    \<longrightarrow> is_string (ne_message e))))
   \<and> (\<forall>e. fst (api T w cfg) = Inl e \<longrightarrow>
          is_number (ne_status e)
          \<and> (ne_data e = None \<longrightarrow> is_string (ne_message e))
          \<and> (\<forall>d. ne_data e = Some d \<longrightarrow>
                ne_message e
                  = (if truthy (message_of d) then message_of d
                     else JStr ''An error occurred'')
                \<and> (is_string (message_of d) \<or> \<not> truthy (message_of d)
                     \<longrightarrow> is_string (ne_message e))))"
proof -
  let ?out = "last_answer T w cfg"
  let ?c = "last (dispatched_by T w cfg)"
  have some: "dispatched_by T w cfg \<noteq> []" and few: "length (dispatched_by T w cfg) \<le> 2"
    and res: "fst (api T w cfg) = settle ?c ?out"
    using api_settles [of T w cfg] by simp_all
  have good: "\<forall>resp. ?out = Fulfilled resp \<longrightarrow> fst (api T w cfg) = Inr resp"
    using res by (simp add: settle_def)
  have only: "\<forall>resp. fst (api T w cfg) = Inr resp \<longrightarrow> ?out = Fulfilled resp"
    using res by (cases ?out) (simp_all add: settle_def)
  have net: "\<forall>m c. ?out = Rejected None m c \<longrightarrow>
          (\<exists>e. fst (api T w cfg) = Inl e
               \<and> ne_status e = JNum 0
               \<and> ne_data e = None
               \<and> ne_message e
                   = JStr (str_or m ''Network error. Please check your connection.'')
               \<and> is_number (ne_status e) \<and> is_string (ne_message e))"
    using res
    by (simp add: settle_def rejection_of_def error_of_def network_message_string)
  have http: "\<forall>resp m c. ?out = Rejected (Some resp) m c \<longrightarrow>
          (\<exists>e. fst (api T w cfg) = Inl e
               \<and> ne_status e = JNum (status resp)
               \<and> ne_data e = Some (data resp)
               \<and> ne_message e
                   = (if truthy (message_of (data resp)) then message_of (data resp)
                      else JStr ''An error occurred'')
               \<and> is_number (ne_status e)
               \<and> (is_string (message_of (data resp)) \<or> \<not> truthy (message_of (data resp))
                    \<longrightarrow> is_string (ne_message e)))"
    using res
    by (simp add: settle_def rejection_of_def error_of_def js_or_def)
  have shape: "\<forall>e. fst (api T w cfg) = Inl e \<longrightarrow>
          is_number (ne_status e)
          \<and> (ne_data e = None \<longrightarrow> is_string (ne_message e))
          \<and> (\<forall>d. ne_data e = Some d \<longrightarrow>
                ne_message e
                  = (if truthy (message_of d) then message_of d
                     else JStr ''An error occurred'')
                \<and> (is_string (message_of d) \<or> \<not> truthy (message_of d)
                     \<longrightarrow> is_string (ne_message e)))"
  proof (intro allI impI)
    fix e
    assume "fst (api T w cfg) = Inl e"
    with res obtain err where e: "e = rejection_of err"
      by (cases ?out) (auto simp: settle_def)
    show "is_number (ne_status e)
          \<and> (ne_data e = None \<longrightarrow> is_string (ne_message e))
          \<and> (\<forall>d. ne_data e = Some d \<longrightarrow>
                ne_message e
                  = (if truthy (message_of d) then message_of d
                     else JStr ''An error occurred'')
                \<and> (is_string (message_of d) \<or> \<not> truthy (message_of d)
                     \<longrightarrow> is_string (ne_message e)))"
      unfolding e
      using rejection_of_status [of err] rejection_of_network_message [of err]
        rejection_of_http_message [of err]
      by auto
  qed
  show ?thesis
    apply (insert some few good only net http shape)
    apply (intro conjI)
          apply assumption+
    done
qed

theorem error_normalization_witness:
  "last_answer always_timeout (browser ''/doctors'' (session_store ''tok1''))
       (get_config ''/doctors'')
     = Rejected None (Some ''timeout of 10000ms exceeded'') (Some ''ECONNABORTED'')
   \<and> (\<exists>e. fst (api always_timeout (browser ''/doctors'' (session_store ''tok1''))
               (get_config ''/doctors'')) = Inl e
          \<and> ne_status e = JNum 0
          \<and> ne_data e = None
          \<and> ne_message e = JStr ''timeout of 10000ms exceeded'')
   \<and> last_answer (answer_with 500 (JStr ''{oops''))
         (browser ''/doctors'' (session_store ''tok1'')) (get_config ''/doctors'')
     = Rejected
         (Some \<lparr>status = 500, data = JStr ''{oops'',
            rconfig = request_onFulfilled (session_store ''tok1'') (get_config ''/doctors'')\<rparr>)
         (Some ''Request failed'') (Some ''ERR_BAD_RESPONSE'')
   \<and> \<not> truthy (message_of (JStr ''{oops''))
   \<and> (\<exists>e. fst (api (answer_with 500 (JStr ''{oops''))
               (browser ''/doctors'' (session_store ''tok1'')) (get_config ''/doctors'')) = Inl e
          \<and> ne_status e = JNum 500
          \<and> ne_data e = Some (JStr ''{oops'')
          \<and> ne_message e = JStr ''An error occurred'')
   \<and> last_answer (answer_with 200 JNull)
         (browser ''/doctors'' (session_store ''tok1'')) (get_config ''/doctors'')
     = Fulfilled \<lparr>status = 200, data = JNull,
         rconfig = request_onFulfilled (session_store ''tok1'') (get_config ''/doctors'')\<rparr>
   \<and> fst (api (answer_with 200 JNull) (browser ''/doctors'' (session_store ''tok1''))
            (get_config ''/doctors''))
     = Inr \<lparr>status = 200, data = JNull,
         rconfig = request_onFulfilled (session_store ''tok1'') (get_config ''/doctors'')\<rparr>"
proof -
  let ?w = "browser ''/doctors'' (session_store ''tok1'')"
  let ?cfg = "get_config ''/doctors''"
  let ?cfg1 = "request_onFulfilled (session_store ''tok1'') ?cfg"
  let ?cfg2 = "?cfg1\<lparr>isRetry := True\<rparr>"
  have fresh: "\<not> isRetry ?cfg" by (simp add: get_config_def)
  have flagged: "isRetry ?cfg2" by simp
  have step: "api always_timeout ?w ?cfg = api always_timeout (retry_world ?w ?cfg1) ?cfg2"
    using api_Rejected_retry [of always_timeout ?w ?cfg _ _] fresh
    by (simp add: browser_fields)
  have "dispatched_by always_timeout ?w ?cfg = [?cfg1, ?cfg2]"
    using api_flagged_attempts [OF flagged, of always_timeout "retry_world ?w ?cfg1"]
    by (simp add: dispatched_by_def step request_onFulfilled_again retry_world_fields
          browser_fields)
  then have a1: "last_answer always_timeout ?w ?cfg
                   = Rejected None (Some ''timeout of 10000ms exceeded'') (Some ''ECONNABORTED'')"
    by (simp add: last_answer_def)
  have "dispatched_by (answer_with 500 (JStr ''{oops'')) ?w ?cfg = [?cfg1]"
    by (simp add: dispatched_by_def api_Rejected_response status_switch_attempts emit_def
          attempts_of_append browser_fields)
  then have a2: "last_answer (answer_with 500 (JStr ''{oops'')) ?w ?cfg
                   = Rejected (Some \<lparr>status = 500, data = JStr ''{oops'', rconfig = ?cfg1\<rparr>)
                       (Some ''Request failed'') (Some ''ERR_BAD_RESPONSE'')"
    by (simp add: last_answer_def browser_fields)
  have "dispatched_by (answer_with 200 JNull) ?w ?cfg = [?cfg1]"
    by (simp add: dispatched_by_def api_Fulfilled emit_def attempts_of_append browser_fields)
  then have a3: "last_answer (answer_with 200 JNull) ?w ?cfg
                   = Fulfilled \<lparr>status = 200, data = JNull, rconfig = ?cfg1\<rparr>"
    by (simp add: last_answer_def browser_fields)
  note net = error_normalization [of always_timeout ?w ?cfg,
      THEN conjunct2, THEN conjunct2, THEN conjunct2, THEN conjunct2, THEN conjunct1,
      rule_format, OF a1]
  note http = error_normalization [of "answer_with 500 (JStr ''{oops'')" ?w ?cfg,
      THEN conjunct2, THEN conjunct2, THEN conjunct2, THEN conjunct2, THEN conjunct2,
      THEN conjunct1, rule_format, OF a2]
  note good = error_normalization [of "answer_with 200 JNull" ?w ?cfg,
      THEN conjunct2, THEN conjunct2, THEN conjunct1, rule_format, OF a3]
  have p1: "\<exists>e. fst (api always_timeout ?w ?cfg) = Inl e
          \<and> ne_status e = JNum 0
          \<and> ne_data e = None
          \<and> ne_message e = JStr ''timeout of 10000ms exceeded''"
    using net by (auto simp: str_or_def)
  have p2: "\<exists>e. fst (api (answer_with 500 (JStr ''{oops'')) ?w ?cfg) = Inl e
          \<and> ne_status e = JNum 500
          \<and> ne_data e = Some (JStr ''{oops'')
          \<and> ne_message e = JStr ''An error occurred''"
    using http by auto
  have p3: "\<not> truthy (message_of (JStr ''{oops''))" by simp
  show ?thesis
    apply (insert a1 p1 a2 p3 p2 a3 good)
    apply (intro conjI)
          apply assumption+
    done
qed

text \<open>
  C10. A rejection built for an error without a response has status 0, a \<open>code\<close> field
  that is always present and holds the error's code when it has one and \<open>null\<close>
  otherwise, and an \<open>originalError\<close> field holding the error itself. An empty code
  string counts as no code.
\<close>

theorem network_error_fields:
  assumes "response err = None"
    and "fst (response_onRejected w err) = Reject e"
  shows "ne_status e = JNum 0
         \<and> ne_code e = Some (code_field (code err))
         \<and> ne_originalError e = Some err"
  using assms
  by (cases "code err")
     (auto simp: response_onRejected_def code_field_def js_or_def js_of_string_def
           split: option.splits)

theorem network_error_fields_witness:
  "response (error_of ((get_config ''/doctors'')\<lparr>isRetry := True\<rparr>) None
               (Some ''Network Error'') None) = None
   \<and> fst (response_onRejected (browser ''/doctors'' Map.empty)
            (error_of ((get_config ''/doctors'')\<lparr>isRetry := True\<rparr>) None
               (Some ''Network Error'') None))
     = Reject \<lparr>ne_status = JNum 0, ne_message = JStr ''Network Error'', ne_data = None,
               ne_code = Some JNull,
               ne_originalError =
                 Some (error_of ((get_config ''/doctors'')\<lparr>isRetry := True\<rparr>) None
                         (Some ''Network Error'') None)\<rparr>
   \<and> code_field (code (error_of ((get_config ''/doctors'')\<lparr>isRetry := True\<rparr>) None
                          (Some ''Network Error'') None)) = JNull
   \<and> code_field (Some ''ERR_NETWORK'') = JStr ''ERR_NETWORK''"
  using network_error_fields
    [of "error_of ((get_config ''/doctors'')\<lparr>isRetry := True\<rparr>) None
           (Some ''Network Error'') None"
        "browser ''/doctors'' Map.empty"
        "\<lparr>ne_status = JNum 0, ne_message = JStr ''Network Error'', ne_data = None,
          ne_code = Some JNull,
          ne_originalError =
            Some (error_of ((get_config ''/doctors'')\<lparr>isRetry := True\<rparr>) None
                    (Some ''Network Error'') None)\<rparr>"]
  by (simp add: error_of_def response_onRejected_def retry_config_def js_or_def
        js_of_string_def code_field_def)


end
